theory Spec2Isabelle
  imports Main "HOL-Library.Sublist" "HOL-Library.AList"
begin

section \<open>Python values, errors and library functions\<close>

text \<open>
  The bot is a Python program (\<^verbatim>\<open>src/main.py\<close>). Every place where Python raises
  is a branch of the model that returns the exception as a value (\<open>Inl\<close>).
  Calls into the chat transport (send, edit, delete, react) do not touch the game state;
  they are left out, except that every \<^verbatim>\<open>await\<close> is a point where the event loop may
  run another handler, which the environment records below make explicit.
\<close>

datatype py_error = AttributeError | IndexError | KeyError | ZeroDivisionError

text \<open>
  A class namespace: the attributes a class body binds. \<^verbatim>\<open>class Data\<close> binds
  \<^verbatim>\<open>words\<close> (and the file handle \<^verbatim>\<open>f\<close>, which nothing reads) and nothing else.
  The set \<^verbatim>\<open>Data.words\<close> is given by the list of its members in iteration order.
\<close>

type_synonym py_class = "string \<Rightarrow> string list option"

definition getattr :: "py_class \<Rightarrow> string \<Rightarrow> py_error + string list" where
  "getattr cls name = (case cls name of None \<Rightarrow> Inl AttributeError | Some v \<Rightarrow> Inr v)"

definition Data :: "string list \<Rightarrow> py_class" where
  "Data ws = [''words'' \<mapsto> ws]"

text \<open>\<^verbatim>\<open>random.choice(xs)\<close>: raises IndexError on an empty sequence; \<open>r\<close> is the draw.\<close>

definition random_choice :: "'a list \<Rightarrow> nat \<Rightarrow> py_error + 'a" where
  "random_choice xs r = (if xs = [] then Inl IndexError else Inr (xs ! (r mod length xs)))"

text \<open>\<^verbatim>\<open>d[k]\<close> on a dict, given as an association list in insertion order.\<close>

definition dict_get :: "('k \<times> 'v) list \<Rightarrow> 'k \<Rightarrow> py_error + 'v" where
  "dict_get d k = (case map_of d k of None \<Rightarrow> Inl KeyError | Some v \<Rightarrow> Inr v)"

text \<open>
  \<^verbatim>\<open>str.lower()\<close> on ASCII text: the letters A to Z are lowered, every other character is
  kept (Python also lowers letters outside ASCII).
\<close>

definition lower_char :: "char \<Rightarrow> char" where
  "lower_char c =
     (case map_of (zip ''ABCDEFGHIJKLMNOPQRSTUVWXYZ'' ''abcdefghijklmnopqrstuvwxyz'') c of
        None \<Rightarrow> c
      | Some d \<Rightarrow> d)"

definition lower :: "string \<Rightarrow> string" where
  "lower s = map lower_char s"

text \<open>\<^verbatim>\<open>xs.pop(i)\<close> for an index in range.\<close>

definition pop :: "nat \<Rightarrow> 'a list \<Rightarrow> 'a list" where
  "pop i xs = take i xs @ drop (Suc i) xs"

section \<open>Players, messages and game sessions\<close>

record Player =
  pid :: int
  status :: string
  hearts :: int

text \<open>\<^verbatim>\<open>Player.__init__(id, status="Player")\<close>; the field \<^verbatim>\<open>id\<close> is \<open>pid\<close> here.\<close>

definition Player_init :: "int \<Rightarrow> string \<Rightarrow> Player" where
  "Player_init i s = \<lparr>pid = i, status = s, hearts = 2\<rparr>"

record message =
  channel :: int
  author :: int
  content :: string

text \<open>
  \<^verbatim>\<open>class wordbombGame\<close>. \<open>timeRemaining\<close> counts exact tenths of a second. The source
  subtracts the float 0.1 per tick from a number of seconds, so its rounding can move the
  tick at which a turn times out by one (the 81st instead of the 80th for 8 seconds);
  which tick it is matters to none of the properties below. \<open>currentPlayerIndex\<close> only
  ever holds 0 or a remainder modulo the roster size, so it is a natural number.
\<close>

record wordbombGame =
  userID :: int
  channelID :: int
  gameID :: int
  stage :: int
  plays :: int
  countdown :: int
  currentPlayerIndex :: nat
  timeRemaining :: int
  players :: "Player list"
  used_words :: "string set"
  currentStarter :: string
  running :: bool
  responded :: bool
  singleplayer :: bool
  response :: "message option"
  timeStageRelation :: "(int \<times> int) list"
  stageStartersRelation :: "(int \<times> string list) list"

text \<open>
  The comprehension of \<^verbatim>\<open>__init__\<close>, line 92:
  \<^verbatim>\<open>[word[i - 1] for word in Data.words if len(word) > i - 1]\<close>.
\<close>

definition starters :: "string list \<Rightarrow> nat \<Rightarrow> string list" where
  "starters ws i = [[word ! (i - 1)]. word \<leftarrow> ws, length word > i - 1]"

text \<open>
  \<^verbatim>\<open>wordbombGame.__init__(userID, channelID)\<close>, in the order of its statements:
  \<open>gid\<close> is the value of \<^verbatim>\<open>random.randint(1, 999999)\<close> and \<open>r\<close> the draw of
  \<^verbatim>\<open>random.choice(Data.easy_starters)\<close>.
\<close>

definition wordbombGame_init ::
  "py_class \<Rightarrow> int \<Rightarrow> int \<Rightarrow> int \<Rightarrow> nat \<Rightarrow> py_error + wordbombGame" where
  "wordbombGame_init D uid cid gid r =
     (case getattr D ''easy_starters'' of
        Inl e \<Rightarrow> Inl e
      | Inr es \<Rightarrow>
          (case random_choice es r of
             Inl e \<Rightarrow> Inl e
           | Inr st \<Rightarrow>
               (case getattr D ''words'' of
                  Inl e \<Rightarrow> Inl e
                | Inr ws \<Rightarrow>
                    Inr \<lparr>userID = uid, channelID = cid, gameID = gid, stage = 1, plays = 0,
                         countdown = 10, currentPlayerIndex = 0, timeRemaining = 80,
                         players = [Player_init uid ''Owner''], used_words = {},
                         currentStarter = st, running = True, responded = False,
                         singleplayer = False, response = None,
                         timeStageRelation = [(1, 8), (2, 7), (3, 6), (4, 5), (5, 4), (6, 3), (7, 2)],
                         stageStartersRelation = [(int i, starters ws i). i \<leftarrow> [1..<8]]\<rparr>)))"

text \<open>\<^verbatim>\<open>gameOver(Game)\<close>: the statistics name \<^verbatim>\<open>players[0]\<close> as winner when the roster
  is not empty; the only state change is \<^verbatim>\<open>Game.running = False\<close>.\<close>

definition winner :: "wordbombGame \<Rightarrow> int option" where
  "winner g = (case players g of [] \<Rightarrow> None | p # _ \<Rightarrow> Some (pid p))"

definition gameOver :: "wordbombGame \<Rightarrow> wordbombGame" where
  "gameOver g = g\<lparr>running := False\<rparr>"

section \<open>The turn loop\<close>

text \<open>\<^verbatim>\<open>Game.players[Game.currentPlayerIndex].hearts -= 1\<close>\<close>

definition lose_life :: "wordbombGame \<Rightarrow> py_error + wordbombGame" where
  "lose_life g =
     (let i = currentPlayerIndex g in
      if i < length (players g)
      then Inr (g\<lparr>players := (players g)[i := (players g ! i)\<lparr>hearts := hearts (players g ! i) - 1\<rparr>]\<rparr>)
      else Inl IndexError)"

text \<open>
  Lines 158 to 170 of \<^verbatim>\<open>startGame\<close>: the block \<^verbatim>\<open>if Game.responded: ...\<close> that judges
  the submitted message.
\<close>

definition resolve_response :: "py_class \<Rightarrow> wordbombGame \<Rightarrow> py_error + wordbombGame" where
  "resolve_response D g =
     (if responded g then
        (case response g of
           None \<Rightarrow> Inl AttributeError
         | Some m \<Rightarrow>
             (let response_content = lower (content m) in
              case getattr D ''words'' of
                Inl e \<Rightarrow> Inl e
              | Inr ws \<Rightarrow>
                  if length response_content < 2
                     \<or> response_content \<in> used_words g
                     \<or> \<not> prefix (lower (currentStarter g)) response_content
                     \<or> response_content \<notin> set ws
                  then lose_life g
                  else Inr (g\<lparr>used_words := insert response_content (used_words g),
                              plays := plays g + 1\<rparr>)))
      else Inr g)"

text \<open>
  \<^verbatim>\<open>on_message\<close>, for one game of \<^verbatim>\<open>games.values()\<close>: the body of the handler's loop.
  It checks the channel, that the author is in the roster, and that the author is the
  player at the turn index; nothing else.
\<close>

definition on_message_game :: "message \<Rightarrow> wordbombGame \<Rightarrow> py_error + wordbombGame" where
  "on_message_game m g =
     (if channelID g = channel m then
        if list_ex (\<lambda>player. pid player = author m) (players g) then
          if currentPlayerIndex g < length (players g) then
            if pid (players g ! currentPlayerIndex g) = author m
            then Inr (g\<lparr>responded := True, response := Some m\<rparr>)
            else Inr g
          else Inl IndexError
        else Inr g
      else Inr g)"

text \<open>
  Messages handled while the turn loop is suspended at an \<^verbatim>\<open>await\<close>. An exception in
  the handler ends the handler, not the loop, and leaves the game as it was.
\<close>

fun deliver :: "message list \<Rightarrow> wordbombGame \<Rightarrow> wordbombGame" where
  "deliver [] g = g"
| "deliver (m # ms) g =
     deliver ms (case on_message_game m g of Inl _ \<Rightarrow> g | Inr g' \<Rightarrow> g')"

text \<open>
  What the environment does during one iteration of the turn loop: the messages handled
  during the first edit (line 147), during each \<^verbatim>\<open>asyncio.sleep(0.1)\<close> of the wait loop,
  and during the pause after a timeout (lines 154 and 155), and the draw of the next
  starter. Joins are separate events between iterations.
\<close>

record turn_env =
  early :: "message list"
  arrivals :: "message list list"
  late :: "message list"
  draw :: nat

text \<open>
  Where an iteration leaves the loop: \<open>Next\<close> goes on to the next iteration, \<open>Break\<close> leaves
  the loop, \<open>Raise\<close> is an exception that ends the loop's task, \<open>Pending\<close> is a loop still
  suspended when the recorded environment ends.
\<close>

datatype flow =
    Next wordbombGame
  | Break wordbombGame
  | Raise py_error wordbombGame
  | Pending wordbombGame

text \<open>The wait loop, lines 149 to 156: \<^verbatim>\<open>while not Game.responded: ...\<close>\<close>

fun wait_for_response :: "message list list \<Rightarrow> message list \<Rightarrow> wordbombGame \<Rightarrow> flow" where
  "wait_for_response [] pause g = (if responded g then Next g else Pending g)"
| "wait_for_response (tick # ticks) pause g =
     (if responded g then Next g
      else
        (let g1 = deliver tick g;
             g2 = g1\<lparr>timeRemaining := timeRemaining g1 - 1\<rparr>
         in if timeRemaining g2 \<le> 0
            then (case lose_life g2 of
                    Inl e \<Rightarrow> Raise e g2
                  | Inr g3 \<Rightarrow> Next (deliver pause g3))
            else wait_for_response ticks pause g2))"

text \<open>Lines 172 to 177: the player at the turn index is removed at exactly 0 lives.\<close>

definition eliminate :: "wordbombGame \<Rightarrow> py_error + wordbombGame" where
  "eliminate g =
     (let i = currentPlayerIndex g in
      if i < length (players g) then
        if hearts (players g ! i) = 0 then
          (let ps = pop i (players g)
           in Inr (g\<lparr>players := ps,
                      currentPlayerIndex := (if i \<ge> length ps then 0 else i)\<rparr>))
        else Inr g
      else Inl IndexError)"

text \<open>Lines 179 to 188: the win check, then the stage and turn advance.\<close>

definition advance :: "nat \<Rightarrow> wordbombGame \<Rightarrow> flow" where
  "advance r g =
     (if length (players g) = 1 \<and> \<not> singleplayer g then Break (gameOver g)
      else
        (let g1 = g\<lparr>stage := min 7 (plays g div 10 + 1)\<rparr> in
         case dict_get (timeStageRelation g1) (stage g1) of
           Inl e \<Rightarrow> Raise e g1
         | Inr t \<Rightarrow>
             (let g2 = g1\<lparr>timeRemaining := 10 * t\<rparr> in
              case dict_get (stageStartersRelation g2) (stage g2) of
                Inl e \<Rightarrow> Raise e g2
              | Inr ss \<Rightarrow>
                  (case random_choice ss r of
                     Inl e \<Rightarrow> Raise e g2
                   | Inr st \<Rightarrow>
                       (let g3 = g2\<lparr>currentStarter := st\<rparr> in
                        if length (players g3) = 0 then Raise ZeroDivisionError g3
                        else Next (g3\<lparr>currentPlayerIndex :=
                                         (currentPlayerIndex g3 + 1) mod length (players g3),
                                       response := None, responded := False\<rparr>))))))"

text \<open>One iteration of \<^verbatim>\<open>while Game.running\<close>, lines 141 to 188.\<close>

definition turn :: "py_class \<Rightarrow> turn_env \<Rightarrow> wordbombGame \<Rightarrow> flow" where
  "turn D e g =
     (if players g = [] then Break (gameOver g)
      else if length (players g) \<le> currentPlayerIndex g then Raise IndexError g
      else
        (case wait_for_response (arrivals e) (late e) (deliver (early e) g) of
           Next g1 \<Rightarrow>
             (case resolve_response D g1 of
                Inl err \<Rightarrow> Raise err g1
              | Inr g2 \<Rightarrow>
                  (case eliminate g2 of
                     Inl err \<Rightarrow> Raise err g2
                   | Inr g3 \<Rightarrow> advance (draw e) g3))
         | other \<Rightarrow> other))"

text \<open>\<^verbatim>\<open>startGame(Game)\<close>: the loop, one environment record per iteration.\<close>

fun startGame :: "py_class \<Rightarrow> turn_env list \<Rightarrow> wordbombGame \<Rightarrow> flow" where
  "startGame D [] g = (if running g then Pending g else Break g)"
| "startGame D (e # es) g =
     (if running g then
        (case turn D e g of
           Next g' \<Rightarrow> startGame D es g'
         | other \<Rightarrow> other)
      else Break g)"

section \<open>The registry and the interaction handlers\<close>

text \<open>
  The global dict \<^verbatim>\<open>games\<close> maps a host's user id to a game object, in insertion order.
  Game objects are shared: the registry, the handlers and the running turn loop all hold
  references to the same object. The store \<open>heap\<close> maps an object's address to its
  state; \<open>allocated\<close> counts the objects created so far and is the next fresh address.
\<close>

type_synonym addr = nat

record system =
  games :: "(int \<times> addr) list"
  heap :: "addr \<Rightarrow> wordbombGame"
  allocated :: nat

text \<open>\<^verbatim>\<open>games.values()\<close>, each object with its address.\<close>

definition game_values :: "system \<Rightarrow> (addr \<times> wordbombGame) list" where
  "game_values s = map (\<lambda>(u, a). (a, heap s a)) (games s)"

text \<open>
  \<^verbatim>\<open>for game in games.values(): if str(game.gameID) == gameID: ...\<close> acts on the first
  game whose id is the one the pressed button carries. The join button of game \<open>n\<close>
  carries \<^verbatim>\<open>str(n)\<close> and its start button \<^verbatim>\<open>f"{n}###"\<close>; each handler is the
  callback of its own button, so the string comparison is the comparison of the ids.
\<close>

definition lookup_game :: "int \<Rightarrow> system \<Rightarrow> (addr \<times> wordbombGame) option" where
  "lookup_game gid s = find (\<lambda>(a, g). gameID g = gid) (game_values s)"

text \<open>
  What a handler answers. The source sends texts; the constructors are named after the
  outcome each text reports:
  \<open>RoomOccupied\<close> "A game is already running in ...",
  \<open>HostAlreadyHosting\<close> "You already started a game in ...",
  \<open>Created\<close> the "Waiting for players..." message of the new session,
  \<open>AlreadyStarted\<close> "Game already started in ...!",
  \<open>NotHost\<close> "This game is being hosted by ...!",
  \<open>CountdownDone\<close> the countdown ran and the turn loop is entered,
  \<open>AlreadyJoined\<close> "You have already joined the game!",
  \<open>Joined\<close> "... has joined the game!",
  \<open>GameNotFound\<close> "Game not found or invalid game ID.",
  \<open>Stopped\<close> "This game was stopped by the host."
\<close>

datatype reply =
    RoomOccupied
  | HostAlreadyHosting
  | Created addr
  | AlreadyStarted
  | NotHost
  | CountdownDone addr
  | AlreadyJoined
  | Joined
  | GameNotFound
  | Stopped

text \<open>\<^verbatim>\<open>userGameInstanceCreation\<close>, lines 256 to 277.\<close>

definition userGameInstanceCreation ::
  "py_class \<Rightarrow> int \<Rightarrow> int \<Rightarrow> int \<Rightarrow> nat \<Rightarrow> system \<Rightarrow> (py_error + reply) \<times> system" where
  "userGameInstanceCreation D uid cid gid r s =
     (if list_ex (\<lambda>(a, game). channelID game = cid) (game_values s)
      then (Inr RoomOccupied, s)
      else if uid \<in> fst ` set (games s)
      then (Inr HostAlreadyHosting, s)
      else
        (case wordbombGame_init D uid cid gid r of
           Inl e \<Rightarrow> (Inl e, s)
         | Inr g \<Rightarrow>
             (Inr (Created (allocated s)),
              s\<lparr>games := AList.update uid (allocated s) (games s),
                heap := (heap s)(allocated s := g),
                allocated := Suc (allocated s)\<rparr>)))"

text \<open>\<^verbatim>\<open>joinGame\<close>, lines 228 to 244.\<close>

definition joinGame :: "int \<Rightarrow> int \<Rightarrow> system \<Rightarrow> reply \<times> system" where
  "joinGame gid uid s =
     (case lookup_game gid s of
        None \<Rightarrow> (GameNotFound, s)
      | Some (a, game) \<Rightarrow>
          if list_ex (\<lambda>player. pid player = uid) (players game)
          then (AlreadyJoined, s)
          else (Joined,
                s\<lparr>heap := (heap s)
                   (a := game\<lparr>players := players game @ [Player_init uid ''Player'']\<rparr>)\<rparr>))"

text \<open>
  \<^verbatim>\<open>startGameCountdown\<close>, lines 197 to 219, up to the call of \<^verbatim>\<open>startGame\<close>. With no
  matching game the handler returns without an answer (\<open>None\<close>).
\<close>

definition startGameCountdown :: "int \<Rightarrow> int \<Rightarrow> system \<Rightarrow> reply option \<times> system" where
  "startGameCountdown gid uid s =
     (case lookup_game gid s of
        None \<Rightarrow> (None, s)
      | Some (a, game) \<Rightarrow>
          (let g1 = (if length (players game) = 1 then game\<lparr>singleplayer := True\<rparr> else game);
               s1 = s\<lparr>heap := (heap s)(a := g1)\<rparr>
           in if stage g1 = 1 then (Some AlreadyStarted, s1)
              else if uid \<noteq> userID g1 then (Some NotHost, s1)
              else (Some (CountdownDone a),
                    s1\<lparr>heap := (heap s1)(a := g1\<lparr>countdown := countdown g1 - 5\<rparr>)\<rparr>)))"

text \<open>\<^verbatim>\<open>on_message\<close>, lines 306 to 311: every registered game is offered the message.\<close>

fun on_message_loop ::
  "message \<Rightarrow> addr list \<Rightarrow> (addr \<Rightarrow> wordbombGame) \<Rightarrow> py_error option \<times> (addr \<Rightarrow> wordbombGame)" where
  "on_message_loop m [] h = (None, h)"
| "on_message_loop m (a # as) h =
     (case on_message_game m (h a) of
        Inl e \<Rightarrow> (Some e, h)
      | Inr g' \<Rightarrow> on_message_loop m as (h(a := g')))"

definition on_message :: "message \<Rightarrow> system \<Rightarrow> py_error option \<times> system" where
  "on_message m s =
     (case on_message_loop m (map snd (games s)) (heap s) of
        (e, h) \<Rightarrow> (e, s\<lparr>heap := h\<rparr>))"

text \<open>
  \<^verbatim>\<open>stopgame\<close>, lines 358 to 363: \<^verbatim>\<open>games[interaction.user.id]\<close> raises KeyError for a
  user who hosts nothing; otherwise the entry is deleted. The game object is not touched
  (the edit of the game's main message that follows is a transport call).
\<close>

definition stopgame :: "int \<Rightarrow> system \<Rightarrow> (py_error + reply) \<times> system" where
  "stopgame uid s =
     (case map_of (games s) uid of
        None \<Rightarrow> (Inl KeyError, s)
      | Some a \<Rightarrow> (Inr Stopped, s\<lparr>games := AList.delete uid (games s)\<rparr>))"

text \<open>
  The turn loop as a task of the system: it holds the address of its game object and
  writes to that object only.
\<close>

fun game_of :: "flow \<Rightarrow> wordbombGame" where
  "game_of (Next g) = g"
| "game_of (Break g) = g"
| "game_of (Raise e g) = g"
| "game_of (Pending g) = g"

definition run_startGame :: "py_class \<Rightarrow> turn_env list \<Rightarrow> addr \<Rightarrow> system \<Rightarrow> flow \<times> system" where
  "run_startGame D envs a s =
     (let r = startGame D envs (heap s a)
      in (r, s\<lparr>heap := (heap s)(a := game_of r)\<rparr>))"

section \<open>Example sessions\<close>

text \<open>
  Concrete inputs for the evaluations below. \<open>lobby_game\<close> is the session the constructor
  builds for host 1 in room 100 over a three-word dictionary, when it is given the
  attribute \<^verbatim>\<open>easy_starters\<close> it reads (lemma \<open>lobby_game_constructed\<close>).
\<close>

definition example_words :: "string list" where
  "example_words = [''ab'', ''cat'', ''dog'']"

definition lobby_game :: wordbombGame where
  "lobby_game =
     \<lparr>userID = 1, channelID = 100, gameID = 4242, stage = 1, plays = 0, countdown = 10,
      currentPlayerIndex = 0, timeRemaining = 80,
      players = [\<lparr>pid = 1, status = ''Owner'', hearts = 2\<rparr>], used_words = {},
      currentStarter = ''a'', running = True, responded = False, singleplayer = False,
      response = None,
      timeStageRelation = [(1, 8), (2, 7), (3, 6), (4, 5), (5, 4), (6, 3), (7, 2)],
      stageStartersRelation =
        [(1, [''a'', ''c'', ''d'']), (2, [''b'', ''a'', ''o'']), (3, [''t'', ''g'']),
         (4, []), (5, []), (6, []), (7, [])]\<rparr>"

text \<open>A message of the host (user 1) in room 100, and a session in which it is pending.\<close>

definition answer :: "string \<Rightarrow> message" where
  "answer txt = \<lparr>channel = 100, author = 1, content = txt\<rparr>"

definition answering_game :: "string \<Rightarrow> wordbombGame" where
  "answering_game txt = lobby_game\<lparr>responded := True, response := Some (answer txt)\<rparr>"

text \<open>
  An iteration in which nobody writes: 80 ticks of the wait loop pass, the turn times out.
\<close>

definition quiet :: turn_env where
  "quiet = \<lparr>early = [], arrivals = replicate 80 [], late = [], draw = 0\<rparr>"

text \<open>
  An iteration in which the host's message arrives during the last sleep of the wait loop,
  the one after which the time is found to have run out.
\<close>

definition last_tick :: "string \<Rightarrow> turn_env" where
  "last_tick txt =
     \<lparr>early = [], arrivals = replicate 79 [] @ [[answer txt]], late = [], draw = 0\<rparr>"

text \<open>The same session after user 2 joined, and after it ran to stage 3 and ended.\<close>

definition duel :: wordbombGame where
  "duel = lobby_game\<lparr>players := [\<lparr>pid = 1, status = ''Owner'', hearts = 2\<rparr>,
                                  \<lparr>pid = 2, status = ''Player'', hearts = 2\<rparr>]\<rparr>"

definition finished_game :: wordbombGame where
  "finished_game = duel\<lparr>stage := 3, plays := 25, running := False\<rparr>"

text \<open>Registries: empty, and with one session of host 1 at address 0.\<close>

definition empty_system :: system where
  "empty_system = \<lparr>games = [], heap = (\<lambda>_. lobby_game), allocated = 0\<rparr>"

definition lobby_system :: system where
  "lobby_system = \<lparr>games = [(1, 0)], heap = (\<lambda>_. lobby_game), allocated = 1\<rparr>"

definition duel_system :: system where
  "duel_system = \<lparr>games = [(1, 0)], heap = (\<lambda>_. duel), allocated = 1\<rparr>"

definition finished_system :: system where
  "finished_system = \<lparr>games = [(1, 0)], heap = (\<lambda>_. finished_game), allocated = 1\<rparr>"

section \<open>Properties\<close>

subsection \<open>Shared facts\<close>

lemma getattr_Data_words: "getattr (Data ws) ''words'' = Inr ws"
  by (simp add: getattr_def Data_def)

lemma in_roster_iff: "list_ex (\<lambda>player. pid player = x) ps \<longleftrightarrow> x \<in> pid ` set ps"
  by (induction ps) auto

lemma update_fresh_key: "k \<notin> fst ` set xs \<Longrightarrow> AList.update k v xs = xs @ [(k, v)]"
  by (induction xs) auto

text \<open>The example session is the one the constructor builds, given the attribute it reads.\<close>

lemma lobby_game_constructed:
  "wordbombGame_init ((Data example_words)(''easy_starters'' \<mapsto> [''a''])) 1 100 4242 0
     = Inr lobby_game"
  by (simp add: wordbombGame_init_def getattr_def Data_def lobby_game_def example_words_def
      random_choice_def Player_init_def starters_def upt_rec)

text \<open>
  Three timed-out turns of the two-player session: each player loses a life, then player 1
  loses the second one, is removed, and the loop ends with player 2 as the sole player.
\<close>

lemma duel_three_timeouts:
  "startGame (Data example_words) [quiet, quiet, quiet] duel =
     Break (duel\<lparr>players := [\<lparr>pid = 2, status = ''Player'', hearts = 1\<rparr>],
                 timeRemaining := 0, running := False\<rparr>)"
  by code_simp

subsection \<open>Creating a session\<close>

text \<open>
  The constructor reads \<^verbatim>\<open>Data.easy_starters\<close> (line 80), which \<^verbatim>\<open>class Data\<close> does
  not define: it raises for every argument, so creation never registers anything.
\<close>

lemma init_raises: "wordbombGame_init (Data ws) uid cid gid r = Inl AttributeError"
  by (simp add: wordbombGame_init_def getattr_def Data_def)

lemma create_never_registers:
  "snd (userGameInstanceCreation (Data ws) uid cid gid r s) = s"
  by (simp add: userGameInstanceCreation_def init_raises)

lemma create_room_occupied:
  "list_ex (\<lambda>(a, game). channelID game = cid) (game_values s) \<Longrightarrow>
   userGameInstanceCreation D uid cid gid r s = (Inr RoomOccupied, s)"
  by (simp add: userGameInstanceCreation_def)

lemma create_host_already_hosting:
  "\<not> list_ex (\<lambda>(a, game). channelID game = cid) (game_values s) \<Longrightarrow>
   uid \<in> fst ` set (games s) \<Longrightarrow>
   userGameInstanceCreation D uid cid gid r s = (Inr HostAlreadyHosting, s)"
  by (simp add: userGameInstanceCreation_def)

text \<open>
  Were the attribute defined and not empty, creation would register a session with the
  host as its only player (Owner, 2 lives) under the host's id.
\<close>

lemma create_succeeds_with_easy_starters:
  assumes "\<not> list_ex (\<lambda>(a, game). channelID game = cid) (game_values s)"
    and "uid \<notin> fst ` set (games s)"
    and "D ''easy_starters'' = Some es" and "es \<noteq> []" and "D ''words'' = Some ws"
  shows "\<exists>g. userGameInstanceCreation D uid cid gid r s =
           (Inr (Created (allocated s)),
            s\<lparr>games := games s @ [(uid, allocated s)], heap := (heap s)(allocated s := g),
              allocated := Suc (allocated s)\<rparr>)
         \<and> players g = [\<lparr>pid = uid, status = ''Owner'', hearts = 2\<rparr>]
         \<and> userID g = uid \<and> channelID g = cid \<and> stage g = 1 \<and> plays g = 0 \<and> running g
         \<and> \<not> responded g \<and> used_words g = {}"
proof -
  obtain g where init: "wordbombGame_init D uid cid gid r = Inr g"
    and shape: "players g = [\<lparr>pid = uid, status = ''Owner'', hearts = 2\<rparr>]"
      "userID g = uid" "channelID g = cid" "stage g = 1" "plays g = 0" "running g"
      "\<not> responded g" "used_words g = {}"
    using assms(3-5)
    by (simp add: wordbombGame_init_def getattr_def random_choice_def Player_init_def)
  have "userGameInstanceCreation D uid cid gid r s =
           (Inr (Created (allocated s)),
            s\<lparr>games := games s @ [(uid, allocated s)], heap := (heap s)(allocated s := g),
              allocated := Suc (allocated s)\<rparr>)"
    using assms(1,2) init by (simp add: userGameInstanceCreation_def update_fresh_key)
  with shape show ?thesis by blast
qed

text \<open>
  C1 (the code differs). A create request by user 1 for room 100 on the empty registry,
  where the room is free and the user hosts nothing: the handler raises AttributeError and
  the registry stays empty; no session is constructed, registered or returned.
\<close>

theorem create_raises_AttributeError:
  "userGameInstanceCreation (Data example_words) 1 100 4242 0 empty_system
     = (Inl AttributeError, empty_system)"
  by (simp add: userGameInstanceCreation_def init_raises empty_system_def game_values_def)

subsection \<open>Judging an answer\<close>

text \<open>
  The block that judges a pending response (lines 158 to 170), taken by itself, with \<open>w\<close>
  the lower-cased text: it accepts exactly when \<open>w\<close> has at least two characters, is not a
  used word, starts with the lower-cased starter and is a dictionary word. Acceptance adds
  exactly \<open>w\<close> to the used words and one to the plays and leaves the roster as it was;
  rejection takes exactly one life from the player at the turn index and changes nothing
  else.
\<close>

lemma resolve_response_accepts_iff_valid:
  assumes "responded g" and "response g = Some m"
    and "currentPlayerIndex g < length (players g)"
  shows "resolve_response (Data ws) g =
     Inr (if 2 \<le> length (lower (content m))
             \<and> lower (content m) \<notin> used_words g
             \<and> prefix (lower (currentStarter g)) (lower (content m))
             \<and> lower (content m) \<in> set ws
          then g\<lparr>used_words := insert (lower (content m)) (used_words g), plays := plays g + 1\<rparr>
          else g\<lparr>players := (players g)[currentPlayerIndex g :=
                  (players g ! currentPlayerIndex g)
                    \<lparr>hearts := hearts (players g ! currentPlayerIndex g) - 1\<rparr>]\<rparr>)"
  using assms
  by (auto simp add: resolve_response_def getattr_Data_words lose_life_def Let_def)

text \<open>
  The host answers "Ab" to the starter "a": accepted, "ab" is used and the plays are 1.
  The host answers "Cat": it does not start with "a", and the host is left with one life.
\<close>

lemma resolve_response_examples:
  "resolve_response (Data example_words) (answering_game ''Ab'')
     = Inr ((answering_game ''Ab'')\<lparr>used_words := {''ab''}, plays := 1\<rparr>)
   \<and> resolve_response (Data example_words) (answering_game ''Cat'')
     = Inr ((answering_game ''Cat'')\<lparr>players := [\<lparr>pid = 1, status = ''Owner'', hearts = 1\<rparr>]\<rparr>)"
  using resolve_response_accepts_iff_valid
      [of "answering_game ''Ab''" "answer ''Ab''" example_words]
    resolve_response_accepts_iff_valid
      [of "answering_game ''Cat''" "answer ''Cat''" example_words]
  by (simp add: answering_game_def answer_def lobby_game_def example_words_def lower_def
      lower_char_def)

text \<open>
  Within a turn the block sees the roster untouched when the answer of the player on the
  clock arrives while more than one tick of the turn's time is left: the wait loop ends
  with the answer pending and no life taken.
\<close>

lemma wait_when_responded: "responded g \<Longrightarrow> wait_for_response ticks pause g = Next g"
  by (cases ticks) simp_all

lemma answer_in_time_leaves_wait_loop:
  assumes "\<not> responded g" and "int k + 1 < timeRemaining g"
    and "channelID g = channel m"
    and "currentPlayerIndex g < length (players g)"
    and "pid (players g ! currentPlayerIndex g) = author m"
  shows "wait_for_response (replicate k [] @ [m] # rest) pause g =
     Next (g\<lparr>timeRemaining := timeRemaining g - int k - 1, responded := True,
             response := Some m\<rparr>)"
  using assms
proof (induction k arbitrary: g)
  case 0
  have "author m \<in> pid ` set (players g)"
    using 0(4,5) by (metis imageI nth_mem)
  then have "on_message_game m g = Inr (g\<lparr>responded := True, response := Some m\<rparr>)"
    using 0 by (simp add: on_message_game_def in_roster_iff)
  then show ?case using 0 by (simp add: wait_when_responded Let_def)
next
  case (Suc k)
  let ?g = "g\<lparr>timeRemaining := timeRemaining g - 1\<rparr>"
  have "wait_for_response (replicate k [] @ [m] # rest) pause ?g =
     Next (?g\<lparr>timeRemaining := timeRemaining ?g - int k - 1, responded := True,
             response := Some m\<rparr>)"
    using Suc.prems by (intro Suc.IH) simp_all
  then show ?case using Suc.prems by (simp add: Let_def)
qed

text \<open>
  C2 (the code differs). Two players with 2 lives each, starter "a"; the host's answer
  arrives during the last sleep of the wait loop. The loop subtracts the tick, finds the
  time run out and takes a life, and the answered block then judges the answer as well.
  The valid answer "ab" is accepted (it is used, the plays are 1), yet the host is left
  with 1 life. The invalid answer "zz" is rejected and the host loses two lives in the
  one turn, is removed, and the game ends.
\<close>

theorem last_tick_answer_costs_a_life:
  "turn (Data example_words) (last_tick ''ab'') duel =
     Next (duel\<lparr>players := [\<lparr>pid = 1, status = ''Owner'', hearts = 1\<rparr>,
                             \<lparr>pid = 2, status = ''Player'', hearts = 2\<rparr>],
               used_words := {''ab''}, plays := 1, currentPlayerIndex := 1\<rparr>)
   \<and> turn (Data example_words) (last_tick ''zz'') duel =
     Break (duel\<lparr>players := [\<lparr>pid = 2, status = ''Player'', hearts = 2\<rparr>],
                timeRemaining := 0, responded := True, response := Some (answer ''zz''),
                running := False\<rparr>)"
  by code_simp

subsection \<open>Stopping a session\<close>

text \<open>
  C3 (the code differs). The host (user 1) stops the running two-player session. The
  registry entry is deleted, but the game object is untouched: its \<open>running\<close> flag is
  still set, so the turn loop, which holds the object, goes on. No message reaches the
  session any more, so three more iterations run, each timing out, and the loop then ends
  the game by itself with player 2 as the winner.
\<close>

theorem stop_leaves_loop_running:
  "stopgame 1 duel_system = (Inr Stopped, duel_system\<lparr>games := []\<rparr>)
   \<and> running (heap (snd (stopgame 1 duel_system)) 0)
   \<and> fst (run_startGame (Data example_words) [quiet, quiet, quiet] 0
        (snd (stopgame 1 duel_system)))
       = Break (duel\<lparr>players := [\<lparr>pid = 2, status = ''Player'', hearts = 1\<rparr>],
                      timeRemaining := 0, running := False\<rparr>)
   \<and> winner (game_of (fst (run_startGame (Data example_words) [quiet, quiet, quiet] 0
         (snd (stopgame 1 duel_system))))) = Some 2"
proof -
  have stop: "stopgame 1 duel_system = (Inr Stopped, duel_system\<lparr>games := []\<rparr>)"
    by (simp add: stopgame_def duel_system_def)
  have obj: "heap (duel_system\<lparr>games := []\<rparr>) 0 = duel"
    by (simp add: duel_system_def)
  show ?thesis
    unfolding stop run_startGame_def snd_conv obj duel_three_timeouts Let_def fst_conv
    by (simp add: winner_def duel_def lobby_game_def)
qed

subsection \<open>The starter tables\<close>

text \<open>
  The table of stage \<open>n\<close> holds, for every word of at least \<open>n\<close> characters, the one
  character at position \<open>n\<close>; at stage 1 that is the word's first character.
\<close>

lemma starters_elements:
  "0 < n \<Longrightarrow> set (starters ws n) = {[w ! (n - 1)] | w. w \<in> set ws \<and> n \<le> length w}"
  by (auto simp add: starters_def)

lemma starters_stage_one:
  assumes "x \<in> set (starters ws 1)"
  shows "\<exists>w \<in> set ws. 1 \<le> length w \<and> x = take 1 w"
proof -
  from assms obtain w where w: "w \<in> set ws" "w \<noteq> []" "x = [w ! 0]"
    by (auto simp add: starters_def)
  obtain c cs where "w = c # cs" using w(2) by (cases w) auto
  then have "take 1 w = [w ! 0]" and "1 \<le> length w" by simp_all
  with w show ?thesis by (intro bexI [of _ w]) simp_all
qed

text \<open>
  C4 (the code differs). Over the dictionary "ab", "cat", "dog" the table of stage 2 is
  "b", "a", "o": the second letters, not the two-character prefixes "ab", "ca", "do";
  and its element "o" begins no word of the dictionary.
\<close>

theorem stage_two_starters_are_second_letters:
  "starters example_words 2 = [''b'', ''a'', ''o'']
   \<and> map (take 2) (filter (\<lambda>w. 2 \<le> length w) example_words) = [''ab'', ''ca'', ''do'']
   \<and> list_all (\<lambda>w. \<not> prefix ''o'' w) example_words"
  by (simp add: starters_def example_words_def)

subsection \<open>Starting the countdown\<close>

text \<open>
  C5 (the code differs). On the freshly created session of host 1, a start request by
  user 2, who is not the host, is answered "Game already started" and not "This game is
  being hosted by", and it has set the session's \<open>singleplayer\<close> flag; the host's own
  request is answered "Game already started" too, so the countdown never starts.
\<close>

theorem countdown_request_on_fresh_session:
  "startGameCountdown 4242 2 lobby_system
     = (Some AlreadyStarted,
        lobby_system\<lparr>heap := (heap lobby_system)(0 := lobby_game\<lparr>singleplayer := True\<rparr>)\<rparr>)
   \<and> fst (startGameCountdown 4242 1 lobby_system) = Some AlreadyStarted"
  by (simp add: startGameCountdown_def lookup_game_def game_values_def lobby_system_def
      lobby_game_def)

subsection \<open>Lives\<close>

text \<open>
  C6 (the code differs). Two players with 2 lives each. Turn 1 and turn 2 time out, each
  player has 1 life. Turn 3 times out for player 1 (0 lives), and during the pause that
  follows the timeout player 1's message "zz" arrives; the answered block runs as well,
  rejects it and takes another life. Player 1 now has -1 lives, and since the removal
  tests for exactly 0, player 1 stays in the roster.
\<close>

theorem late_answer_after_timeout_goes_negative:
  "startGame (Data example_words)
     [quiet, quiet, quiet\<lparr>late := [answer ''zz'']\<rparr>] duel =
   Pending (duel\<lparr>players := [\<lparr>pid = 1, status = ''Owner'', hearts = - 1\<rparr>,
                             \<lparr>pid = 2, status = ''Player'', hearts = 1\<rparr>],
                 currentPlayerIndex := 1\<rparr>)"
  by code_simp

subsection \<open>Routing a chat message\<close>

text \<open>
  C7 (as stated, false). The host's message is stored in a session that was only created
  and never started; and a second message of the player on the clock replaces the first
  while the first is still pending, so the session state changes.
\<close>

theorem message_stored_without_phase_or_pending_check:
  "on_message_game (answer ''hello'') lobby_game
     = Inr (lobby_game\<lparr>responded := True, response := Some (answer ''hello'')\<rparr>)
   \<and> responded (answering_game ''first'')
   \<and> on_message_game (answer ''second'') (answering_game ''first'')
     = Inr (answering_game ''second'')
   \<and> answering_game ''second'' \<noteq> answering_game ''first''"
  by (simp add: on_message_game_def answer_def answering_game_def lobby_game_def)

text \<open>
  C7 (amended). A chat message is stored as the session's pending answer exactly when it
  is sent in the session's room and its sender is the player at the turn index, whatever
  the session's progress and whether or not an answer is already pending (the new message
  replaces it). Every other message leaves the session as it was; the handler raises only
  when the sender is in the roster and the turn index is outside it.
\<close>

theorem message_stored_iff_sender_on_the_clock:
  "on_message_game m g =
     (if channelID g = channel m \<and> currentPlayerIndex g < length (players g)
          \<and> pid (players g ! currentPlayerIndex g) = author m
      then Inr (g\<lparr>responded := True, response := Some m\<rparr>)
      else if channelID g = channel m \<and> author m \<in> pid ` set (players g)
          \<and> length (players g) \<le> currentPlayerIndex g
      then Inl IndexError
      else Inr g)"
proof -
  have "author m \<in> pid ` set (players g)"
    if "currentPlayerIndex g < length (players g)"
      and "pid (players g ! currentPlayerIndex g) = author m"
    using that by (metis imageI nth_mem)
  then show ?thesis
    by (auto simp add: on_message_game_def in_roster_iff)
qed

subsection \<open>The empty roster\<close>

text \<open>
  C8 (the code differs). A single-player session: the host times out twice. The second
  time the host is removed, the roster is empty, the win check does not apply, and the
  turn advance computes a remainder modulo 0: the loop ends with ZeroDivisionError.
\<close>

theorem sole_player_eliminated_divides_by_zero:
  "startGame (Data example_words) [quiet, quiet] (lobby_game\<lparr>singleplayer := True\<rparr>) =
     Raise ZeroDivisionError (lobby_game\<lparr>singleplayer := True, players := []\<rparr>)"
  by code_simp

subsection \<open>Game over and the registry\<close>

text \<open>
  C9 (the code differs). The two-player session runs to its end: the loop leaves with
  \<open>running\<close> cleared. The registry still holds the session under host 1, so a new create
  request by host 1 is answered "You already started a game", and one by user 3 for
  room 100 "A game is already running".
\<close>

theorem game_over_keeps_registry_entry:
  "run_startGame (Data example_words) [quiet, quiet, quiet] 0 duel_system =
     (Break (duel\<lparr>players := [\<lparr>pid = 2, status = ''Player'', hearts = 1\<rparr>],
                  timeRemaining := 0, running := False\<rparr>),
      duel_system\<lparr>heap := (heap duel_system)
         (0 := duel\<lparr>players := [\<lparr>pid = 2, status = ''Player'', hearts = 1\<rparr>],
                   timeRemaining := 0, running := False\<rparr>)\<rparr>)
   \<and> games (snd (run_startGame (Data example_words) [quiet, quiet, quiet] 0 duel_system))
       = [(1, 0)]
   \<and> fst (userGameInstanceCreation (Data example_words) 1 200 7 0
        (snd (run_startGame (Data example_words) [quiet, quiet, quiet] 0 duel_system)))
       = Inr HostAlreadyHosting
   \<and> fst (userGameInstanceCreation (Data example_words) 3 100 7 0
        (snd (run_startGame (Data example_words) [quiet, quiet, quiet] 0 duel_system)))
       = Inr RoomOccupied"
proof -
  have obj: "heap duel_system 0 = duel"
    by (simp add: duel_system_def)
  show ?thesis
    unfolding run_startGame_def obj duel_three_timeouts Let_def fst_conv snd_conv
    by (simp add: userGameInstanceCreation_def game_values_def duel_system_def duel_def
        lobby_game_def)
qed

subsection \<open>Joining\<close>

text \<open>A registered session is the one its own id resolves to, when the ids are distinct.\<close>

lemma find_registered:
  "(u, a) \<in> set xs \<Longrightarrow> distinct (map (\<lambda>(u, a). gameID (h a)) xs) \<Longrightarrow>
   find (\<lambda>(a', g). gameID g = gameID (h a)) (map (\<lambda>(u, a). (a, h a)) xs) = Some (a, h a)"
proof (induction xs)
  case Nil
  then show ?case by simp
next
  case (Cons x xs)
  obtain u' a' where x: "x = (u', a')" by (cases x)
  show ?case
  proof (cases "gameID (h a') = gameID (h a)")
    case True
    have "a' = a"
    proof (cases "(u, a) \<in> set xs")
      case True
      then have "gameID (h a) \<in> set (map (\<lambda>(u, a). gameID (h a)) xs)" by force
      with Cons.prems(2) x \<open>gameID (h a') = gameID (h a)\<close> show ?thesis by simp
    next
      case False
      with Cons.prems(1) x show ?thesis by simp
    qed
    with True x show ?thesis by simp
  next
    case False
    with Cons x show ?thesis by auto
  qed
qed

lemma lookup_game_registered:
  assumes "(u, a) \<in> set (games s)"
    and "distinct (map (\<lambda>(u, a). gameID (heap s a)) (games s))"
  shows "lookup_game (gameID (heap s a)) s = Some (a, heap s a)"
  using find_registered [OF assms] by (simp add: lookup_game_def game_values_def)

text \<open>
  C10. For a session registered under any host, in a registry whose game ids are distinct,
  whatever the session's own state (nothing is assumed about its stage, its \<open>running\<close>
  flag or any other field), and a user not in its roster: pressing the session's join
  button appends a player with status Player and 2 lives at the end of the roster and
  changes nothing else, neither in this session nor in the rest of the system.
\<close>

theorem join_appends_participant:
  assumes "(host, a) \<in> set (games s)"
    and "distinct (map (\<lambda>(u, a). gameID (heap s a)) (games s))"
    and "uid \<notin> pid ` set (players (heap s a))"
  shows "joinGame (gameID (heap s a)) uid s =
     (Joined,
      s\<lparr>heap := (heap s)
         (a := (heap s a)\<lparr>players := players (heap s a)
                  @ [\<lparr>pid = uid, status = ''Player'', hearts = 2\<rparr>]\<rparr>)\<rparr>)"
  using assms(3) lookup_game_registered [OF assms(1,2)]
  by (simp add: joinGame_def in_roster_iff Player_init_def)

text \<open>User 5 joins the session that has ended, and the session that has not started.\<close>

theorem join_appends_participant_witness:
  "joinGame 4242 5 finished_system =
     (Joined,
      finished_system\<lparr>heap := (heap finished_system)
         (0 := finished_game\<lparr>players := [\<lparr>pid = 1, status = ''Owner'', hearts = 2\<rparr>,
                                          \<lparr>pid = 2, status = ''Player'', hearts = 2\<rparr>,
                                          \<lparr>pid = 5, status = ''Player'', hearts = 2\<rparr>]\<rparr>)\<rparr>)
   \<and> joinGame 4242 5 lobby_system =
     (Joined,
      lobby_system\<lparr>heap := (heap lobby_system)
         (0 := lobby_game\<lparr>players := [\<lparr>pid = 1, status = ''Owner'', hearts = 2\<rparr>,
                                       \<lparr>pid = 5, status = ''Player'', hearts = 2\<rparr>]\<rparr>)\<rparr>)"
  using join_appends_participant [of 1 0 finished_system 5]
    join_appends_participant [of 1 0 lobby_system 5]
  by (simp add: finished_system_def finished_game_def lobby_system_def duel_def lobby_game_def)

end
